theory Spec2Isabelle
  imports Complex_Main "HOL-Library.Word"
begin

unbundle bit_operations_syntax

section \<open>Bytes, errors and the runtime primitives\<close>

text \<open>
  A \<open>Buffer\<close> / \<open>Uint8Array\<close> is a list of bytes. A JavaScript function that may throw
  returns \<open>error + 'a\<close>, with \<open>Inl\<close> for the exception.
\<close>

type_synonym byte = "8 word"
type_synonym bytes = "byte list"

datatype error =
    KeyLengthError       \<comment> \<open>\<open>throw new Error('ChaCha20-Poly1305 requires a 32-byte key')\<close>\<close>
  | CipherError          \<comment> \<open>\<open>createCipheriv\<close>, \<open>createDecipheriv\<close>, \<open>setAuthTag\<close> refusing an argument\<close>
  | AuthenticationError  \<comment> \<open>\<open>decipher.final()\<close> on a tag that does not verify\<close>
  | SyntaxError          \<comment> \<open>\<open>JSON.parse\<close> on a malformed text\<close>

record Attribute =
  trait_type :: string
  attr_value :: string

text \<open>
  The Node.js built-ins that the repository calls and does not define are parameters of
  the model: the two AEAD ciphers of \<open>crypto\<close> (given key, nonce and plaintext, sealing
  returns ciphertext and tag; opening takes key, nonce, tag and ciphertext),
  \<open>Buffer.from(JSON.stringify(_))\<close> and \<open>JSON.parse(_.toString())\<close> on attribute arrays, and
  the base64 text encoding of \<open>Buffer\<close>.
\<close>

record platform =
  aes_seal :: "bytes \<Rightarrow> bytes \<Rightarrow> bytes \<Rightarrow> error + (bytes \<times> bytes)"
  aes_open :: "bytes \<Rightarrow> bytes \<Rightarrow> bytes \<Rightarrow> bytes \<Rightarrow> error + bytes"
  chacha_seal :: "bytes \<Rightarrow> bytes \<Rightarrow> bytes \<Rightarrow> error + (bytes \<times> bytes)"
  chacha_open :: "bytes \<Rightarrow> bytes \<Rightarrow> bytes \<Rightarrow> bytes \<Rightarrow> error + bytes"
  json_stringify :: "Attribute list \<Rightarrow> bytes"
  json_parse :: "bytes \<Rightarrow> error + Attribute list"
  base64_encode :: "bytes \<Rightarrow> string"
  base64_decode :: "string \<Rightarrow> bytes"

section \<open>crypto.ts: AES-GCM framing\<close>

text \<open>
  \<open>encrypt\<close> draws a 16-byte IV from \<open>crypto.randomBytes\<close> (the argument \<open>iv\<close> is what that
  call returned) and lays the record out as IV, tag, ciphertext.
\<close>

definition encrypt :: "platform \<Rightarrow> bytes \<Rightarrow> bytes \<Rightarrow> bytes \<Rightarrow> error + bytes" where
  "encrypt P data key iv =
     (case aes_seal P key iv data of
        Inl e \<Rightarrow> Inl e
      | Inr (encrypted, authTag) \<Rightarrow> Inr (iv @ authTag @ encrypted))"

text \<open>\<open>subarray(a, b)\<close> clamps at the end of the buffer, as \<open>take\<close> and \<open>drop\<close> do.\<close>

definition decrypt :: "platform \<Rightarrow> bytes \<Rightarrow> bytes \<Rightarrow> error + bytes" where
  "decrypt P encryptedData key =
     (let iv = take 16 encryptedData;
          authTag = take 16 (drop 16 encryptedData);
          ciphertext = drop 32 encryptedData
      in aes_open P key iv authTag ciphertext)"

section \<open>crypto/encryption.ts: the ChaCha20-Poly1305 variants\<close>

text \<open>
  \<open>nonce\<close> is the result of \<open>randomBytes(12)\<close>, \<open>iv\<close> that of the \<open>randomBytes(16)\<close> inside
  the fallback call of \<open>encrypt\<close>.
\<close>

definition encryptChaCha20 :: "platform \<Rightarrow> bytes \<Rightarrow> bytes \<Rightarrow> bytes \<Rightarrow> bytes \<Rightarrow> error + bytes" where
  "encryptChaCha20 P data key nonce iv =
     (if length key \<noteq> 32 then Inl KeyLengthError
      else case chacha_seal P key nonce data of
             Inr (ciphertext, authTag) \<Rightarrow> Inr (nonce @ authTag @ ciphertext)
           | Inl e \<Rightarrow> encrypt P data key iv)"



section \<open>models: metadata and privacy levels\<close>

record File =
  uri :: string

record Properties =
  files :: "File list"

record VrmConfig =
  modelUri :: string
  privacySettings :: "(string \<times> string) list"

record PrivateData =
  privacyLevel :: string
  encryptedAttributes :: "string option"
  timelineFragments :: "string list option"
  vrmConfig :: "VrmConfig option"

record GlitchGangMetadata =
  name :: string
  symbol :: string
  description :: string
  attributes :: "Attribute list"
  image_uri :: string
  properties :: Properties
  privateData :: "PrivateData option"

datatype PrivacyLevel = None_level | Light | Medium | Heavy | Complete

text \<open>The numeric value of an enum member, and \<open>PrivacyLevel[level]\<close>, its name.\<close>

fun PrivacyLevel_value :: "PrivacyLevel \<Rightarrow> nat" where
  "PrivacyLevel_value None_level = 0"
| "PrivacyLevel_value Light = 1"
| "PrivacyLevel_value Medium = 2"
| "PrivacyLevel_value Heavy = 3"
| "PrivacyLevel_value Complete = 4"

fun PrivacyLevel_name :: "PrivacyLevel \<Rightarrow> string" where
  "PrivacyLevel_name None_level = ''None''"
| "PrivacyLevel_name Light = ''Light''"
| "PrivacyLevel_name Medium = ''Medium''"
| "PrivacyLevel_name Heavy = ''Heavy''"
| "PrivacyLevel_name Complete = ''Complete''"

section \<open>GlitchGangPrivacyClient: construction\<close>

datatype VRM = VRM string

record client =
  encryptionKey :: bytes
  vrmModel :: "VRM option"

text \<open>
  The constructor: the key is the optional argument when one is passed, otherwise the 32
  bytes that \<open>crypto.getRandomValues\<close> wrote (\<open>randomKey\<close>). No model is loaded.
\<close>

definition new_client :: "bytes option \<Rightarrow> bytes \<Rightarrow> client" where
  "new_client encryptionKeyArg randomKey =
     \<lparr>encryptionKey = (case encryptionKeyArg of Some k \<Rightarrow> k | None \<Rightarrow> randomKey),
      vrmModel = None\<rparr>"

text \<open>
  \<open>loadVrmModel\<close>: \<open>loaded\<close> is what the loader delivered, \<open>None\<close> when it called the error
  callback. Only a delivered model is stored.
\<close>

definition loadVrmModel :: "client \<Rightarrow> VRM option \<Rightarrow> client" where
  "loadVrmModel c loaded = (case loaded of None \<Rightarrow> c | Some vrm \<Rightarrow> c\<lparr>vrmModel := Some vrm\<rparr>)"

section \<open>GlitchGangPrivacyClient: metadata protection\<close>

fun getSensitiveAttributes :: "PrivacyLevel \<Rightarrow> string list" where
  "getSensitiveAttributes None_level = []"
| "getSensitiveAttributes Light = [''Secret Code'', ''Agent Name'']"
| "getSensitiveAttributes Medium = [''Secret Code'', ''Agent Name'', ''Mission'', ''Origin'']"
| "getSensitiveAttributes Heavy =
     [''Secret Code'', ''Agent Name'', ''Mission'', ''Origin'', ''Accessory'', ''Symbols'']"
| "getSensitiveAttributes Complete =
     [''Secret Code'', ''Agent Name'', ''Mission'', ''Origin'', ''Accessory'', ''Symbols'']"

text \<open>
  The \<open>for\<close> loop of \<open>protectMetadata\<close>: each attribute is pushed onto \<open>privateAttrs\<close> or
  onto \<open>publicAttrs\<close>. The result is the pair (private, public).
\<close>

fun split_attributes ::
  "string list \<Rightarrow> Attribute list \<Rightarrow> Attribute list \<Rightarrow> Attribute list \<Rightarrow> Attribute list \<times> Attribute list"
where
  "split_attributes sensitive [] privateAttrs publicAttrs = (privateAttrs, publicAttrs)"
| "split_attributes sensitive (attr # rest) privateAttrs publicAttrs =
     (if trait_type attr \<in> set sensitive
      then split_attributes sensitive rest (privateAttrs @ [attr]) publicAttrs
      else split_attributes sensitive rest privateAttrs (publicAttrs @ [attr]))"

text \<open>
  \<open>protectMetadata\<close>: \<open>iv\<close> is the random IV drawn inside \<open>encrypt\<close>. A throw of
  \<open>encrypt\<close> is not caught.
\<close>

definition protectMetadata ::
  "platform \<Rightarrow> client \<Rightarrow> bytes \<Rightarrow> GlitchGangMetadata \<Rightarrow> PrivacyLevel \<Rightarrow> error + GlitchGangMetadata"
where
  "protectMetadata P c iv metadata level =
     (let sensitiveAttributes = getSensitiveAttributes level;
          (privateAttrs, publicAttrs) = split_attributes sensitiveAttributes (attributes metadata) [] [];
          protectedMetadata = metadata\<lparr>attributes := publicAttrs\<rparr>
      in if length privateAttrs > 0
         then (case encrypt P (json_stringify P privateAttrs) (encryptionKey c) iv of
                 Inl e \<Rightarrow> Inl e
               | Inr encrypted \<Rightarrow>
                   Inr (protectedMetadata\<lparr>privateData := Some
                          \<lparr>privacyLevel = PrivacyLevel_name level,
                           encryptedAttributes = Some (base64_encode P encrypted),
                           timelineFragments = None,
                           vrmConfig = None\<rparr>\<rparr>))
         else Inr protectedMetadata)"

text \<open>
  The guard \<open>!protectedMetadata.privateData?.encryptedAttributes\<close> holds when the section
  is absent, when the field is absent, and when the field is the empty string.
\<close>

definition sealed_text :: "GlitchGangMetadata \<Rightarrow> string option" where
  "sealed_text m =
     (case privateData m of
        None \<Rightarrow> None
      | Some pd \<Rightarrow>
          (case encryptedAttributes pd of
             None \<Rightarrow> None
           | Some s \<Rightarrow> if s = [] then None else Some s))"

text \<open>The body of the \<open>try\<close> block of \<open>decryptMetadata\<close>.\<close>

definition decrypt_attempt ::
  "platform \<Rightarrow> client \<Rightarrow> GlitchGangMetadata \<Rightarrow> string \<Rightarrow> error + GlitchGangMetadata"
where
  "decrypt_attempt P c protectedMetadata s =
     (let encryptedData = base64_decode P s
      in case decrypt P encryptedData (encryptionKey c) of
           Inl e \<Rightarrow> Inl e
         | Inr decryptedData \<Rightarrow>
             (case json_parse P decryptedData of
                Inl e \<Rightarrow> Inl e
              | Inr privateAttrs \<Rightarrow>
                  Inr (protectedMetadata\<lparr>attributes := attributes protectedMetadata @ privateAttrs\<rparr>)))"

text \<open>
  \<open>decryptMetadata\<close>: the \<open>catch\<close> block logs the error and returns its argument, so every
  outcome is a returned value (\<open>Inr\<close>).
\<close>

definition decryptMetadata ::
  "platform \<Rightarrow> client \<Rightarrow> GlitchGangMetadata \<Rightarrow> error + GlitchGangMetadata"
where
  "decryptMetadata P c protectedMetadata =
     (case sealed_text protectedMetadata of
        None \<Rightarrow> Inr protectedMetadata
      | Some s \<Rightarrow>
          (case decrypt_attempt P c protectedMetadata s of
             Inr fullMetadata \<Rightarrow> Inr fullMetadata
           | Inl e \<Rightarrow> Inr protectedMetadata))"

section \<open>models/vrm: numbers and behavioural frames\<close>

text \<open>
  A JavaScript \<open>number\<close> is an IEEE 754 binary64 value: a finite value, one of the two
  infinities, or NaN. \<open>Fin v\<close> is the finite double whose value is the real \<open>v\<close>; the sign of
  zero is left out.
\<close>

datatype jsnum = Fin real | PInf | NInf | NaN

text \<open>
  Rounding to the nearest double, ties to the even significand. A double has 53
  significant bits: between \<open>2 powi k\<close> and \<open>2 powi (k + 1)\<close> the doubles are the multiples
  of \<open>2 powi (k - 52)\<close>, below \<open>2 powi (- 1022)\<close> they are the multiples of \<open>2 powi (- 1074)\<close>,
  and a result of magnitude \<open>2 powi 1024\<close> or more is an infinity.
\<close>

definition round_half_even :: "real \<Rightarrow> int" where
  "round_half_even q =
     (let f = \<lfloor>q\<rfloor>; d = q - of_int f
      in if d < 1/2 then f else if 1/2 < d then f + 1 else if even f then f else f + 1)"

definition round64 :: "real \<Rightarrow> jsnum" where
  "round64 r =
     (if r = 0 then Fin 0
      else let k = max \<lfloor>log 2 \<bar>r\<bar>\<rfloor> (- 1022);
               ulp = 2 powi (k - 52);
               v = of_int (round_half_even (r / ulp)) * ulp
           in if 2 powi 1024 \<le> \<bar>v\<bar> then (if 0 < r then PInf else NInf) else Fin v)"

text \<open>A decimal literal of the source, and \<open>Math.PI\<close>, denote the nearest double.\<close>

definition lit :: "real \<Rightarrow> jsnum" where
  "lit d = round64 d"

text \<open>
  The operators \<open>+\<close>, \<open>-\<close>, \<open>*\<close> and \<open>/\<close>: on finite operands the exact result, rounded;
  on the special values as IEEE 754 has them. Every zero divisor of the code is the
  square root of a sum of squares, a positive zero.
\<close>

fun jneg :: "jsnum \<Rightarrow> jsnum" where
  "jneg (Fin a) = Fin (- a)"
| "jneg PInf = NInf"
| "jneg NInf = PInf"
| "jneg NaN = NaN"

fun jadd :: "jsnum \<Rightarrow> jsnum \<Rightarrow> jsnum" where
  "jadd (Fin a) (Fin b) = round64 (a + b)"
| "jadd NaN _ = NaN"
| "jadd _ NaN = NaN"
| "jadd PInf NInf = NaN"
| "jadd NInf PInf = NaN"
| "jadd PInf _ = PInf"
| "jadd _ PInf = PInf"
| "jadd NInf _ = NInf"
| "jadd _ NInf = NInf"

definition jsub :: "jsnum \<Rightarrow> jsnum \<Rightarrow> jsnum" where
  "jsub a b = jadd a (jneg b)"

fun jsign :: "jsnum \<Rightarrow> real" where
  "jsign (Fin a) = sgn a"
| "jsign PInf = 1"
| "jsign NInf = - 1"
| "jsign NaN = 0"

fun jmul :: "jsnum \<Rightarrow> jsnum \<Rightarrow> jsnum" where
  "jmul (Fin a) (Fin b) = round64 (a * b)"
| "jmul NaN _ = NaN"
| "jmul _ NaN = NaN"
| "jmul a b =
     (if jsign a * jsign b = 0 then NaN else if jsign a * jsign b > 0 then PInf else NInf)"

fun jdiv :: "jsnum \<Rightarrow> jsnum \<Rightarrow> jsnum" where
  "jdiv (Fin a) (Fin b) =
     (if b = 0 then (if a = 0 then NaN else if a > 0 then PInf else NInf) else round64 (a / b))"
| "jdiv NaN _ = NaN"
| "jdiv _ NaN = NaN"
| "jdiv (Fin a) _ = Fin 0"
| "jdiv a (Fin b) = (if b < 0 then jneg a else a)"
| "jdiv _ _ = NaN"

text \<open>
  The language leaves the value of \<open>x ** 2\<close>, \<open>Math.sqrt\<close>, \<open>Math.sin\<close> and \<open>Math.cos\<close> on
  an ordinary argument to the implementation (an approximation of the exact result), so
  these are parameters of the model. It fixes their results on zero, on the infinities
  and on NaN, which are written out below.
\<close>

record math =
  math_square :: "real \<Rightarrow> jsnum"
  math_sqrt :: "real \<Rightarrow> jsnum"
  math_sin :: "real \<Rightarrow> jsnum"
  math_cos :: "real \<Rightarrow> jsnum"

fun jsquare :: "math \<Rightarrow> jsnum \<Rightarrow> jsnum" where
  "jsquare M (Fin a) = (if a = 0 then Fin 0 else math_square M a)"
| "jsquare M PInf = PInf"
| "jsquare M NInf = PInf"
| "jsquare M NaN = NaN"

fun jsqrt :: "math \<Rightarrow> jsnum \<Rightarrow> jsnum" where
  "jsqrt M (Fin a) = (if a < 0 then NaN else if a = 0 then Fin 0 else math_sqrt M a)"
| "jsqrt M PInf = PInf"
| "jsqrt M _ = NaN"

fun jsin :: "math \<Rightarrow> jsnum \<Rightarrow> jsnum" where
  "jsin M (Fin a) = (if a = 0 then Fin 0 else math_sin M a)"
| "jsin M _ = NaN"

fun jcos :: "math \<Rightarrow> jsnum \<Rightarrow> jsnum" where
  "jcos M (Fin a) = (if a = 0 then Fin 1 else math_cos M a)"
| "jcos M _ = NaN"

text \<open>\<open>Math.max\<close> and \<open>Math.min\<close> of two arguments: NaN if either is NaN.\<close>

fun jmax :: "jsnum \<Rightarrow> jsnum \<Rightarrow> jsnum" where
  "jmax (Fin a) (Fin b) = Fin (max a b)"
| "jmax NaN _ = NaN"
| "jmax _ NaN = NaN"
| "jmax PInf _ = PInf"
| "jmax _ PInf = PInf"
| "jmax NInf b = b"
| "jmax a NInf = a"

fun jmin :: "jsnum \<Rightarrow> jsnum \<Rightarrow> jsnum" where
  "jmin (Fin a) (Fin b) = Fin (min a b)"
| "jmin NaN _ = NaN"
| "jmin _ NaN = NaN"
| "jmin NInf _ = NInf"
| "jmin _ NInf = NInf"
| "jmin PInf b = b"
| "jmin a PInf = a"

text \<open>
  \<open>RotationData\<close> has the fields of \<open>PositionData\<close> and \<open>w\<close>. The \<open>Map\<close>-typed fields are
  association lists.
\<close>

record PositionData =
  x :: jsnum
  y :: jsnum
  z :: jsnum

record RotationData = PositionData +
  w :: jsnum

record VoiceData =
  frequency :: "jsnum list"
  amplitude :: "jsnum list"
  pitch :: jsnum
  timbre :: jsnum

record GestureData =
  gesture_name :: string
  intensity :: jsnum
  speed :: jsnum
  jointRotations :: "(string \<times> RotationData) list"

record VrmData =
  position :: PositionData
  rotation :: RotationData
  voice :: "VoiceData option"
  gestures :: "GestureData list"
  animations :: "(string \<times> jsnum) list"
  customData :: "(string \<times> string) list"

section \<open>GlitchGangPrivacyClient: behavioural masking\<close>

text \<open>
  Frames are objects: a heap is the list of the frames allocated so far and a reference is
  an index into it. \<open>Math.random()\<close> is a fixed sequence \<open>rnd\<close> of draws read at a running
  index, which every function that draws returns advanced; the value \<open>rnd i\<close> of a draw
  is read as a double.
\<close>

type_synonym ref = nat
type_synonym heap = "VrmData list"
type_synonym rng = "nat \<Rightarrow> real"

definition isViewerTrusted :: "string \<Rightarrow> string option \<Rightarrow> bool" where
  "isViewerTrusted viewerId nftMint \<longleftrightarrow>
     viewerId \<in> set [''agent1.glitch.gang'', ''agent2.glitch.gang'']"

text \<open>The noise term \<open>(Math.random() - 0.5) * 2 * intensity\<close> for the draw \<open>r\<close>.\<close>

definition noise :: "real \<Rightarrow> jsnum \<Rightarrow> jsnum" where
  "noise r amount = jmul (jmul (jsub (round64 r) (lit 0.5)) (lit 2)) amount"

definition addPositionNoise :: "rng \<Rightarrow> nat \<Rightarrow> PositionData \<Rightarrow> jsnum \<Rightarrow> PositionData \<times> nat" where
  "addPositionNoise rnd i p amount =
     (p\<lparr>x := jadd (x p) (noise (rnd i) amount),
        y := jadd (y p) (noise (rnd (i + 1)) amount),
        z := jadd (z p) (noise (rnd (i + 2)) amount)\<rparr>, i + 3)"

definition addRotationNoise ::
  "math \<Rightarrow> rng \<Rightarrow> nat \<Rightarrow> RotationData \<Rightarrow> jsnum \<Rightarrow> RotationData \<times> nat"
where
  "addRotationNoise M rnd i r amount =
     (let noiseAngle = jmul (jmul amount (lit pi)) (round64 (rnd i));
          noiseAxisX = jsub (jmul (round64 (rnd (i + 1))) (lit 2)) (lit 1);
          noiseAxisY = jsub (jmul (round64 (rnd (i + 2))) (lit 2)) (lit 1);
          noiseAxisZ = jsub (jmul (round64 (rnd (i + 3))) (lit 2)) (lit 1);
          mag = jsqrt M (jadd (jadd (jsquare M noiseAxisX) (jsquare M noiseAxisY))
                              (jsquare M noiseAxisZ));
          normalizedX = jdiv noiseAxisX mag;
          normalizedY = jdiv noiseAxisY mag;
          normalizedZ = jdiv noiseAxisZ mag;
          sinHalfAngle = jsin M (jdiv noiseAngle (lit 2));
          cosHalfAngle = jcos M (jdiv noiseAngle (lit 2));
          noiseQuatX = jmul normalizedX sinHalfAngle;
          noiseQuatY = jmul normalizedY sinHalfAngle;
          noiseQuatZ = jmul normalizedZ sinHalfAngle;
          noiseQuatW = cosHalfAngle;
          originalX = x r;
          originalY = y r;
          originalZ = z r;
          originalW = w r;
          rx = jsub (jadd (jadd (jmul originalW noiseQuatX) (jmul originalX noiseQuatW))
                          (jmul originalY noiseQuatZ)) (jmul originalZ noiseQuatY);
          ry = jadd (jadd (jsub (jmul originalW noiseQuatY) (jmul originalX noiseQuatZ))
                          (jmul originalY noiseQuatW)) (jmul originalZ noiseQuatX);
          rz = jadd (jsub (jadd (jmul originalW noiseQuatZ) (jmul originalX noiseQuatY))
                          (jmul originalY noiseQuatX)) (jmul originalZ noiseQuatW);
          rw = jsub (jsub (jsub (jmul originalW noiseQuatW) (jmul originalX noiseQuatX))
                          (jmul originalY noiseQuatY)) (jmul originalZ noiseQuatZ);
          rotMag = jsqrt M (jadd (jadd (jadd (jsquare M rx) (jsquare M ry)) (jsquare M rz))
                                 (jsquare M rw))
      in (r\<lparr>x := jdiv rx rotMag, y := jdiv ry rotMag, z := jdiv rz rotMag, w := jdiv rw rotMag\<rparr>,
          i + 4))"

text \<open>The two \<open>for\<close> loops of \<open>addVoiceNoise\<close>, one draw for each element.\<close>

fun frequency_loop :: "rng \<Rightarrow> nat \<Rightarrow> jsnum list \<Rightarrow> jsnum \<Rightarrow> jsnum list \<times> nat" where
  "frequency_loop rnd i [] amount = ([], i)"
| "frequency_loop rnd i (f # fs) amount =
     (let f' = jadd f (jmul (noise (rnd i) amount) (lit 100));
          (fs', j) = frequency_loop rnd (i + 1) fs amount
      in (f' # fs', j))"

fun amplitude_loop :: "rng \<Rightarrow> nat \<Rightarrow> jsnum list \<Rightarrow> jsnum \<Rightarrow> jsnum list \<times> nat" where
  "amplitude_loop rnd i [] amount = ([], i)"
| "amplitude_loop rnd i (a # as) amount =
     (let a' = jmax (lit 0) (jadd a (noise (rnd i) amount));
          (as', j) = amplitude_loop rnd (i + 1) as amount
      in (a' # as', j))"

definition addVoiceNoise :: "rng \<Rightarrow> nat \<Rightarrow> VoiceData \<Rightarrow> jsnum \<Rightarrow> VoiceData \<times> nat" where
  "addVoiceNoise rnd i v amount =
     (let (fs, j) = frequency_loop rnd i (frequency v) amount;
          (as, k) = amplitude_loop rnd j (amplitude v) amount;
          pitch' = jadd (pitch v) (jmul (noise (rnd k) amount) (lit 50));
          timbre' = jadd (timbre v) (noise (rnd (k + 1)) amount)
      in (v\<lparr>frequency := fs, amplitude := as, pitch := pitch',
            timbre := jmax (lit 0) (jmin (lit 1) timbre')\<rparr>, k + 2))"

definition addGestureNoise :: "rng \<Rightarrow> nat \<Rightarrow> GestureData \<Rightarrow> jsnum \<Rightarrow> GestureData \<times> nat" where
  "addGestureNoise rnd i g amount =
     (let intensity' = jadd (intensity g) (noise (rnd i) amount);
          speed' = jadd (speed g) (noise (rnd (i + 1)) amount)
      in (g\<lparr>intensity := jmax (lit 0) (jmin (lit 1) intensity'),
            speed := jmax (lit 0.1) speed'\<rparr>, i + 2))"

text \<open>The loop \<open>for (const gesture of maskedData.gestures)\<close>.\<close>

fun gestures_loop :: "rng \<Rightarrow> nat \<Rightarrow> GestureData list \<Rightarrow> GestureData list \<times> nat" where
  "gestures_loop rnd i [] = ([], i)"
| "gestures_loop rnd i (g # gs) =
     (let (g', j) = addGestureNoise rnd i g (lit 0.4);
          (gs', k) = gestures_loop rnd j gs
      in (g' # gs', k))"

text \<open>
  \<open>JSON.parse(JSON.stringify(vrmData))\<close>: a finite number is written in decimal and read
  back as the nearest double, which for a double is the number itself; a number that is
  not finite is written as \<open>null\<close>, which the arithmetic that follows reads as 0; a \<open>Map\<close>
  is written as \<open>{}\<close>.
\<close>

fun json_number :: "jsnum \<Rightarrow> jsnum" where
  "json_number (Fin a) = round64 a"
| "json_number _ = Fin 0"

definition json_clone :: "VrmData \<Rightarrow> VrmData" where
  "json_clone d =
     \<lparr>position = \<lparr>x = json_number (x (position d)), y = json_number (y (position d)),
                  z = json_number (z (position d))\<rparr>,
      rotation = \<lparr>x = json_number (x (rotation d)), y = json_number (y (rotation d)),
                  z = json_number (z (rotation d)), w = json_number (w (rotation d))\<rparr>,
      voice = map_option
        (\<lambda>v. \<lparr>frequency = map json_number (frequency v), amplitude = map json_number (amplitude v),
              pitch = json_number (pitch v), timbre = json_number (timbre v)\<rparr>) (voice d),
      gestures = map
        (\<lambda>g. \<lparr>gesture_name = gesture_name g, intensity = json_number (intensity g),
              speed = json_number (speed g), jointRotations = []\<rparr>) (gestures d),
      animations = [],
      customData = []\<rparr>"

text \<open>The noise applied to the clone, from position to gestures.\<close>

definition mask_clone :: "math \<Rightarrow> rng \<Rightarrow> nat \<Rightarrow> VrmData \<Rightarrow> VrmData \<times> nat" where
  "mask_clone M rnd i maskedData =
     (let (p, i1) = addPositionNoise rnd i (position maskedData) (lit 0.5);
          (r, i2) = addRotationNoise M rnd i1 (rotation maskedData) (lit 0.3);
          (v, i3) = (case voice maskedData of
                       None \<Rightarrow> (None, i2)
                     | Some vd \<Rightarrow> (let (vd', j) = addVoiceNoise rnd i2 vd (lit 0.7) in (Some vd', j)));
          (gs, i4) = gestures_loop rnd i3 (gestures maskedData)
      in (maskedData\<lparr>position := p, rotation := r, voice := v, gestures := gs\<rparr>, i4))"

text \<open>
  The test \<open>viewerId ? this.isViewerTrusted(viewerId, nftMint) : false\<close>: \<open>viewerId\<close> is
  truthy when it is given and not the empty string.
\<close>

definition isTrusted :: "string option \<Rightarrow> string option \<Rightarrow> bool" where
  "isTrusted viewerId nftMint =
     (case viewerId of
        None \<Rightarrow> False
      | Some v \<Rightarrow> if v = [] then False else isViewerTrusted v nftMint)"

text \<open>
  \<open>applyVrmPrivacyMask\<close> takes the reference \<open>vrmData\<close> and returns a reference, the heap
  and the index of the next draw. The result is \<open>None\<close> only for a reference that is not
  allocated, which JavaScript cannot form.
\<close>

definition applyVrmPrivacyMask ::
  "math \<Rightarrow> client \<Rightarrow> rng \<Rightarrow> nat \<Rightarrow> heap \<Rightarrow> ref \<Rightarrow> string option \<Rightarrow> string option
     \<Rightarrow> (ref \<times> heap \<times> nat) option"
where
  "applyVrmPrivacyMask M c rnd i h vrmData viewerId nftMint =
     (if vrmModel c = None then Some (vrmData, h, i)
      else if isTrusted viewerId nftMint then Some (vrmData, h, i)
      else if vrmData < length h
           then (let (maskedData, j) = mask_clone M rnd i (json_clone (h ! vrmData))
                 in Some (length h, h @ [maskedData], j))
           else None)"

section \<open>Terms in which the masking claims are stated\<close>

text \<open>The frame that a result of \<open>applyVrmPrivacyMask\<close> refers to.\<close>

definition returned_frame :: "(ref \<times> heap \<times> nat) option \<Rightarrow> VrmData option" where
  "returned_frame res =
     (case res of
        None \<Rightarrow> None
      | Some (r, h, j) \<Rightarrow> if r < length h then Some (h ! r) else None)"

text \<open>The number of draws that the voice noise takes on a frame.\<close>

definition voice_draws :: "VrmData \<Rightarrow> nat" where
  "voice_draws f =
     (case voice f of None \<Rightarrow> 0 | Some v \<Rightarrow> length (frequency v) + length (amplitude v) + 2)"

section \<open>Contracts of the runtime primitives\<close>

text \<open>
  What the Node.js documentation promises of the primitives, as far as the theorems below
  rely on it. AES-256-GCM under a 32-byte key and a 16-byte IV seals every plaintext, with
  a 16-byte tag, and opens what it sealed.
\<close>

definition aes_correct :: "platform \<Rightarrow> bool" where
  "aes_correct P \<longleftrightarrow>
     (\<forall>key iv data. length key = 32 \<longrightarrow> length iv = 16 \<longrightarrow>
        (\<exists>ct tag. aes_seal P key iv data = Inr (ct, tag) \<and> length tag = 16 \<and>
                  aes_open P key iv tag ct = Inr data))"

text \<open>\<open>JSON.parse\<close> inverts \<open>JSON.stringify\<close> on attribute arrays.\<close>

definition json_correct :: "platform \<Rightarrow> bool" where
  "json_correct P \<longleftrightarrow> (\<forall>attrs. json_parse P (json_stringify P attrs) = Inr attrs)"

text \<open>Base64 decoding inverts encoding, and only the empty buffer encodes to the empty text.\<close>

definition base64_correct :: "platform \<Rightarrow> bool" where
  "base64_correct P \<longleftrightarrow>
     (\<forall>bs. base64_decode P (base64_encode P bs) = bs \<and> (bs \<noteq> [] \<longrightarrow> base64_encode P bs \<noteq> []))"

text \<open>Bit \<open>n\<close> of a buffer is bit \<open>n mod 8\<close> of byte \<open>n div 8\<close>; \<open>invert_bit\<close> inverts it.\<close>

definition invert_bit :: "bytes \<Rightarrow> nat \<Rightarrow> bytes" where
  "invert_bit bs n = bs[n div 8 := (bs ! (n div 8)) XOR push_bit (n mod 8) 1]"

text \<open>
  Tamper evidence of AES-GCM: a sealed triple of IV, tag and ciphertext in which one bit
  has been inverted fails verification.
\<close>

definition aes_tamper_evident :: "platform \<Rightarrow> bool" where
  "aes_tamper_evident P \<longleftrightarrow>
     (\<forall>key iv data ct tag n. aes_seal P key iv data = Inr (ct, tag) \<longrightarrow>
        (n < 8 * length iv \<longrightarrow> aes_open P key (invert_bit iv n) tag ct = Inl AuthenticationError) \<and>
        (n < 8 * length tag \<longrightarrow> aes_open P key iv (invert_bit tag n) ct = Inl AuthenticationError) \<and>
        (n < 8 * length ct \<longrightarrow> aes_open P key iv tag (invert_bit ct n) = Inl AuthenticationError))"

section \<open>A small instance of the primitives\<close>

text \<open>
  A concrete platform on which the functions above can be run. Its ciphers are not AES or
  ChaCha20: the ciphertext is the plaintext XORed with a key byte and the tag is a
  one-byte XOR checksum of key, nonce and ciphertext, padded to 16 bytes. Its text encoding
  maps each byte to the character of the same code, and its attribute serialisation is a
  tagged byte format. They satisfy the contracts above.
\<close>

definition xor_fold :: "bytes \<Rightarrow> byte" where
  "xor_fold bs = foldr (XOR) bs 0"

definition demo_tag :: "byte \<Rightarrow> bytes \<Rightarrow> bytes \<Rightarrow> bytes \<Rightarrow> bytes" where
  "demo_tag salt key nonce ct =
     (salt XOR xor_fold key XOR xor_fold nonce XOR xor_fold ct) # replicate 15 0"

definition demo_seal ::
  "(nat \<Rightarrow> bool) \<Rightarrow> byte \<Rightarrow> bytes \<Rightarrow> bytes \<Rightarrow> bytes \<Rightarrow> error + (bytes \<times> bytes)"
where
  "demo_seal nonce_ok salt key nonce data =
     (if length key \<noteq> 32 \<or> \<not> nonce_ok (length nonce) then Inl CipherError
      else let ct = map (\<lambda>b. b XOR xor_fold key) data
           in Inr (ct, demo_tag salt key nonce ct))"

definition demo_open ::
  "(nat \<Rightarrow> bool) \<Rightarrow> byte \<Rightarrow> bytes \<Rightarrow> bytes \<Rightarrow> bytes \<Rightarrow> bytes \<Rightarrow> error + bytes"
where
  "demo_open nonce_ok salt key nonce tag ct =
     (if length key \<noteq> 32 \<or> \<not> nonce_ok (length nonce) \<or> length tag \<noteq> 16 then Inl CipherError
      else if tag = demo_tag salt key nonce ct then Inr (map (\<lambda>b. b XOR xor_fold key) ct)
      else Inl AuthenticationError)"

fun enc_string :: "string \<Rightarrow> bytes" where
  "enc_string [] = [0]"
| "enc_string (c # cs) = 1 # of_char c # enc_string cs"

fun dec_string :: "bytes \<Rightarrow> (string \<times> bytes) option" where
  "dec_string [] = None"
| "dec_string (t # rest) =
     (if t = 0 then Some ([], rest)
      else case rest of
             [] \<Rightarrow> None
           | b # rest' \<Rightarrow>
               (case dec_string rest' of
                  None \<Rightarrow> None
                | Some (s, r) \<Rightarrow> Some (char_of (unat b) # s, r)))"

fun enc_attrs :: "Attribute list \<Rightarrow> bytes" where
  "enc_attrs [] = [0]"
| "enc_attrs (a # as) = 1 # enc_string (trait_type a) @ enc_string (attr_value a) @ enc_attrs as"

fun dec_attrs :: "nat \<Rightarrow> bytes \<Rightarrow> Attribute list option" where
  "dec_attrs 0 bs = None"
| "dec_attrs (Suc n) [] = None"
| "dec_attrs (Suc n) (t # rest) =
     (if t = 0 then (if rest = [] then Some [] else None)
      else case dec_string rest of
             None \<Rightarrow> None
           | Some (s1, r1) \<Rightarrow>
               (case dec_string r1 of
                  None \<Rightarrow> None
                | Some (s2, r2) \<Rightarrow>
                    (case dec_attrs n r2 of
                       None \<Rightarrow> None
                     | Some as \<Rightarrow> Some (\<lparr>trait_type = s1, attr_value = s2\<rparr> # as))))"

definition demo_parse :: "bytes \<Rightarrow> error + Attribute list" where
  "demo_parse bs = (case dec_attrs (Suc (length bs)) bs of None \<Rightarrow> Inl SyntaxError | Some as \<Rightarrow> Inr as)"

definition demo_platform :: platform where
  "demo_platform =
     \<lparr>aes_seal = demo_seal (\<lambda>n. n > 0) 0x5A,
      aes_open = demo_open (\<lambda>n. n > 0) 0x5A,
      chacha_seal = demo_seal (\<lambda>n. n = 12) 0xC3,
      chacha_open = demo_open (\<lambda>n. n = 12) 0xC3,
      json_stringify = enc_attrs,
      json_parse = demo_parse,
      base64_encode = map (\<lambda>b. char_of (unat b)),
      base64_decode = map of_char\<rparr>"

text \<open>Concrete inputs: two keys, an IV, a client with and without a model, a bundle.\<close>

definition key_a :: bytes where
  "key_a = replicate 32 1"

definition key_b :: bytes where
  "key_b = 2 # replicate 31 1"

definition iv_a :: bytes where
  "iv_a = replicate 16 7"

definition client_a :: client where
  "client_a = new_client (Some key_a) []"

definition client_b :: client where
  "client_b = new_client (Some key_b) []"

definition client_loaded :: client where
  "client_loaded = loadVrmModel client_a (Some (VRM ''avatar.vrm''))"

text \<open>The bundle of the specification's scenario.\<close>

definition scenario_bundle :: GlitchGangMetadata where
  "scenario_bundle =
     \<lparr>name = ''Glitch #699'', symbol = ''GLITCH'', description = ''a collectible'',
      attributes =
        [\<lparr>trait_type = ''Background'', attr_value = ''Cyber Haze''\<rparr>,
         \<lparr>trait_type = ''Secret Code'', attr_value = ''GLITCH-1''\<rparr>,
         \<lparr>trait_type = ''Agent Name'', attr_value = ''Nav''\<rparr>],
      image_uri = ''699.png'', properties = \<lparr>files = []\<rparr>, privateData = None\<rparr>"

definition public_bundle :: GlitchGangMetadata where
  "public_bundle =
     scenario_bundle\<lparr>attributes := [\<lparr>trait_type = ''Background'', attr_value = ''Cyber Haze''\<rparr>]\<rparr>"

text \<open>The scenario bundle protected at Light under the first key, and its sealed text.\<close>

definition protected_a :: GlitchGangMetadata where
  "protected_a =
     (case protectMetadata demo_platform client_a iv_a scenario_bundle Light of
        Inr pm \<Rightarrow> pm
      | Inl e \<Rightarrow> scenario_bundle)"

definition sealed_a :: string where
  "sealed_a = (case sealed_text protected_a of Some s \<Rightarrow> s | None \<Rightarrow> [])"

text \<open>Three bytes sealed by \<open>encrypt\<close> under the first key.\<close>

definition record_a :: bytes where
  "record_a = (case encrypt demo_platform [1, 2, 3] key_a iv_a of Inr r \<Rightarrow> r | Inl e \<Rightarrow> [])"

text \<open>A library whose four functions return the exact result, rounded.\<close>

definition rounded_math :: math where
  "rounded_math =
     \<lparr>math_square = (\<lambda>a. round64 (a * a)),
      math_sqrt = (\<lambda>a. round64 (sqrt a)),
      math_sin = (\<lambda>a. round64 (sin a)),
      math_cos = (\<lambda>a. round64 (cos a))\<rparr>"

text \<open>Two sequences of draws: \<open>Math.random()\<close> always returning 0, and always 0.5.\<close>

definition zero_draws :: rng where
  "zero_draws n = 0"

definition half_draws :: rng where
  "half_draws n = 1 / 2"

definition frame_a :: VrmData where
  "frame_a =
     \<lparr>position = \<lparr>x = Fin 0, y = Fin 0, z = Fin 0\<rparr>,
      rotation = \<lparr>x = Fin 0, y = Fin 0, z = Fin 0, w = Fin 1\<rparr>,
      voice = None, gestures = [], animations = [], customData = []\<rparr>"

text \<open>
  The position \<open>{x: 1e16, y: 0.1, z: 0}\<close>, the draws 0.75, 0.7, 0.7, ... and the position
  \<open>{x: 1e16, y: 0.29999999999999993, z: 0.19999999999999996}\<close>.
\<close>

definition far_position :: PositionData where
  "far_position = \<lparr>x = Fin (10 ^ 16), y = lit 0.1, z = Fin 0\<rparr>"

definition far_draws :: rng where
  "far_draws n = (if n = 0 then 3 / 4 else 7 / 10)"

definition far_moved :: PositionData where
  "far_moved =
     \<lparr>x = Fin (10 ^ 16), y = Fin (5404319552844594 / 2 ^ 54), z = Fin (1801439850948198 / 2 ^ 53)\<rparr>"

text \<open>The position of the frame above with each axis moved by -0.5.\<close>

definition moved_position :: PositionData where
  "moved_position = \<lparr>x = Fin (- 1/2), y = Fin (- 1/2), z = Fin (- 1/2)\<rparr>"

text \<open>The frame above with a NaN rotation.\<close>

definition masked_nan :: VrmData where
  "masked_nan = frame_a\<lparr>rotation := \<lparr>x = NaN, y = NaN, z = NaN, w = NaN\<rparr>\<rparr>"

section \<open>Properties of the framing and of the small instance\<close>

lemma split_attributes_filter:
  "split_attributes sensitive as privateAttrs publicAttrs =
     (privateAttrs @ filter (\<lambda>a. trait_type a \<in> set sensitive) as,
      publicAttrs @ filter (\<lambda>a. trait_type a \<notin> set sensitive) as)"
  by (induction as arbitrary: privateAttrs publicAttrs) simp_all

lemma set_partition_attrs:
  "set (filter (\<lambda>a. trait_type a \<notin> S) as @ filter (\<lambda>a. trait_type a \<in> S) as) = set as"
  by auto

lemma decrypt_encrypt:
  assumes "aes_correct P" "length key = 32" "length iv = 16"
  shows "\<exists>enc. encrypt P data key iv = Inr enc \<and> enc \<noteq> [] \<and> decrypt P enc key = Inr data"
proof -
  from assms obtain ct tag where
    s: "aes_seal P key iv data = Inr (ct, tag)" and t: "length tag = 16"
    and o: "aes_open P key iv tag ct = Inr data"
    unfolding aes_correct_def by blast
  have "encrypt P data key iv = Inr (iv @ tag @ ct)"
    by (simp add: encrypt_def s)
  moreover have "decrypt P (iv @ tag @ ct) key = Inr data"
    using assms(3) t o by (simp add: decrypt_def)
  moreover have "iv @ tag @ ct \<noteq> []"
    using assms(3) by auto
  ultimately show ?thesis by blast
qed

lemma length_invert_bit: "length (invert_bit bs n) = length bs"
  by (simp add: invert_bit_def)

lemma invert_bit_append:
  "invert_bit (xs @ ys) n =
     (if n < 8 * length xs then invert_bit xs n @ ys else xs @ invert_bit ys (n - 8 * length xs))"
proof (cases "n < 8 * length xs")
  case True
  then have "n div 8 < length xs" by (simp add: less_mult_imp_div_less mult.commute)
  then show ?thesis using True by (simp add: invert_bit_def list_update_append nth_append)
next
  case False
  then obtain m where n: "n = 8 * length xs + m" using le_Suc_ex [of "8 * length xs" n] by auto
  show ?thesis by (simp add: n invert_bit_def list_update_append nth_append)
qed

subsection \<open>The small instance meets the contracts\<close>

lemma byte_of_char_of: "of_char (char_of (unat (b::byte))) = b"
proof -
  have lt: "unat b < 256" using unsigned_less [of b, where ?'a = nat] by simp
  have "(of_char (char_of (unat b)) :: byte) = of_nat (of_char (char_of (unat b)))"
    by (simp only: of_nat_of_char)
  also have "\<dots> = of_nat (unat b mod 256)" by simp
  also have "\<dots> = b" using lt by simp
  finally show ?thesis .
qed

lemma char_of_byte_of: "char_of (unat (of_char c :: byte)) = c"
proof -
  have "unat (of_char c :: byte) = unat (of_nat (of_char c) :: byte)"
    by (simp only: of_nat_of_char)
  also have "\<dots> = of_char c mod 256" by (simp add: unat_of_nat)
  finally show ?thesis by simp
qed

lemma dec_enc_string: "dec_string (enc_string s @ r) = Some (s, r)"
  by (induction s) (simp_all add: char_of_byte_of)

lemma length_enc_attrs: "length as < length (enc_attrs as)"
  by (induction as) simp_all

lemma dec_enc_attrs: "length as < n \<Longrightarrow> dec_attrs n (enc_attrs as) = Some as"
proof (induction as arbitrary: n)
  case Nil
  then show ?case by (cases n) simp_all
next
  case (Cons a as)
  then obtain m where n: "n = Suc m" and m: "length as < m" by (cases n) auto
  show ?case
    using Cons.IH [OF m] by (simp add: n dec_enc_string)
qed

lemma demo_json_correct: "json_correct demo_platform"
  by (simp add: json_correct_def demo_platform_def demo_parse_def dec_enc_attrs
        length_enc_attrs less_SucI)

lemma demo_base64_correct: "base64_correct demo_platform"
  by (simp add: base64_correct_def demo_platform_def byte_of_char_of comp_def)

lemma demo_open_seal:
  "length key = 32 \<Longrightarrow> ok (length nonce) \<Longrightarrow>
   \<exists>ct tag. demo_seal ok salt key nonce data = Inr (ct, tag) \<and> length tag = 16 \<and>
            demo_open ok salt key nonce tag ct = Inr data"
  by (simp add: demo_seal_def demo_open_def demo_tag_def Let_def comp_def xor.assoc)

lemma demo_aes_correct: "aes_correct demo_platform"
  unfolding aes_correct_def demo_platform_def
  by (simp add: demo_open_seal)

lemma xor_fold_update:
  "i < length bs \<Longrightarrow> xor_fold (bs[i := (bs ! i) XOR d]) = xor_fold bs XOR d"
proof (induction bs arbitrary: i)
  case Nil
  then show ?case by simp
next
  case (Cons b bs)
  show ?case
  proof (cases i)
    case 0
    then show ?thesis by (simp add: xor_fold_def ac_simps)
  next
    case (Suc j)
    with Cons.prems have "j < length bs" by simp
    from Cons.IH [OF this] show ?thesis
      by (simp add: Suc xor_fold_def xor.assoc)
  qed
qed

lemma one_bit_nonzero: "k < 8 \<Longrightarrow> (push_bit k 1 :: byte) \<noteq> 0"
  by (simp add: push_bit_eq_0_iff)

lemma xor_fold_invert_bit:
  assumes "n < 8 * length bs"
  shows "xor_fold (invert_bit bs n) \<noteq> xor_fold bs"
proof -
  have i: "n div 8 < length bs" using assms by (simp add: less_mult_imp_div_less mult.commute)
  have "xor_fold (invert_bit bs n) = xor_fold bs XOR push_bit (n mod 8) 1"
    unfolding invert_bit_def by (rule xor_fold_update [OF i])
  moreover have "(push_bit (n mod 8) 1 :: byte) \<noteq> 0" by (rule one_bit_nonzero) simp
  ultimately show ?thesis by (metis xor.assoc xor.left_neutral xor_self_eq)
qed

lemma invert_bit_neq:
  assumes "n < 8 * length bs"
  shows "invert_bit bs n \<noteq> bs"
  using xor_fold_invert_bit [OF assms] by auto

lemma xor_cancel_left: "(a::byte) XOR b = a XOR c \<longleftrightarrow> b = c"
  by (metis xor.assoc xor.left_neutral xor_self_eq)

lemma xor_cancel_right: "(b::byte) XOR a = c XOR a \<longleftrightarrow> b = c"
  by (metis xor.commute xor_cancel_left)

lemma length_demo_tag: "length (demo_tag salt key nonce ct) = 16"
  by (simp add: demo_tag_def)

lemma demo_tag_invert_nonce:
  "n < 8 * length nonce \<Longrightarrow> demo_tag salt key nonce ct \<noteq> demo_tag salt key (invert_bit nonce n) ct"
  using xor_fold_invert_bit [of n nonce]
  by (auto simp: demo_tag_def xor_cancel_left xor_cancel_right)

lemma demo_tag_invert_ct:
  "n < 8 * length ct \<Longrightarrow> demo_tag salt key nonce ct \<noteq> demo_tag salt key nonce (invert_bit ct n)"
  using xor_fold_invert_bit [of n ct]
  by (auto simp: demo_tag_def xor_cancel_left)

lemma demo_open_tampered:
  assumes "demo_seal ok salt key nonce data = Inr (ct, tag)"
  shows "(n < 8 * length nonce \<longrightarrow>
            demo_open ok salt key (invert_bit nonce n) tag ct = Inl AuthenticationError) \<and>
         (n < 8 * length tag \<longrightarrow>
            demo_open ok salt key nonce (invert_bit tag n) ct = Inl AuthenticationError) \<and>
         (n < 8 * length ct \<longrightarrow>
            demo_open ok salt key nonce tag (invert_bit ct n) = Inl AuthenticationError)"
proof -
  from assms have k: "length key = 32" and o: "ok (length nonce)"
    and t: "tag = demo_tag salt key nonce ct"
    by (auto simp: demo_seal_def Let_def split: if_splits)
  have lt: "length tag = 16" by (simp add: t length_demo_tag)
  have c1: "demo_open ok salt key (invert_bit nonce n) tag ct = Inl AuthenticationError"
    if "n < 8 * length nonce"
    using k o lt demo_tag_invert_nonce [OF that, of salt key ct]
    by (simp add: demo_open_def length_invert_bit t)
  have c2: "demo_open ok salt key nonce (invert_bit tag n) ct = Inl AuthenticationError"
    if "n < 8 * length tag"
    using k o lt invert_bit_neq [OF that]
    by (simp add: demo_open_def length_invert_bit t)
  have c3: "demo_open ok salt key nonce tag (invert_bit ct n) = Inl AuthenticationError"
    if "n < 8 * length ct"
    using k o lt demo_tag_invert_ct [OF that, of salt key nonce]
    by (simp add: demo_open_def t)
  show ?thesis using c1 c2 c3 by blast
qed

lemma demo_tamper_evident: "aes_tamper_evident demo_platform"
  unfolding aes_tamper_evident_def
  by (simp add: demo_platform_def demo_open_tampered)

lemma client_a_key: "length (encryptionKey client_a) = 32"
  by (simp add: client_a_def new_client_def key_a_def)

lemma length_iv_a: "length iv_a = 16"
  by (simp add: iv_a_def)

lemma protectMetadata_sealed:
  assumes "aes_correct P" "base64_correct P"
    and "length (encryptionKey c) = 32" "length iv = 16"
    and "filter (\<lambda>a. trait_type a \<in> set (getSensitiveAttributes L)) (attributes B) \<noteq> []"
  shows "\<exists>enc pm.
           encrypt P (json_stringify P
              (filter (\<lambda>a. trait_type a \<in> set (getSensitiveAttributes L)) (attributes B)))
              (encryptionKey c) iv = Inr enc \<and>
           protectMetadata P c iv B L = Inr pm \<and>
           sealed_text pm = Some (base64_encode P enc) \<and>
           base64_decode P (base64_encode P enc) = enc"
proof -
  let ?priv = "filter (\<lambda>a. trait_type a \<in> set (getSensitiveAttributes L)) (attributes B)"
  obtain enc where e: "encrypt P (json_stringify P ?priv) (encryptionKey c) iv = Inr enc"
    and ne: "enc \<noteq> []"
    using decrypt_encrypt [OF assms(1) assms(3) assms(4)] by blast
  have b1: "base64_encode P enc \<noteq> []" and b2: "base64_decode P (base64_encode P enc) = enc"
    using assms(2) ne unfolding base64_correct_def by blast+
  show ?thesis
    using assms(5) e b1 b2
    by (simp add: protectMetadata_def split_attributes_filter sealed_text_def)
qed

lemma demo_wrong_key:
  assumes "encrypt demo_platform data key iv = Inr enc"
    and "length iv = 16" "length key' = 32" "xor_fold key' \<noteq> xor_fold key"
  shows "decrypt demo_platform enc key' = Inl AuthenticationError"
proof -
  let ?ct = "map (\<lambda>b. b XOR xor_fold key) data"
  from assms(1) have enc: "enc = iv @ demo_tag 0x5A key iv ?ct @ ?ct"
    by (auto simp: encrypt_def demo_platform_def demo_seal_def Let_def split: if_splits)
  have "demo_tag 0x5A key iv ?ct \<noteq> demo_tag 0x5A key' iv ?ct"
    using assms(4) by (auto simp: demo_tag_def xor_cancel_left xor_cancel_right)
  then show ?thesis
    using assms(2,3)
    by (auto simp: enc decrypt_def demo_platform_def demo_open_def length_demo_tag Let_def)
qed

lemma xor_fold_key_a: "xor_fold key_a = 0"
  by code_simp

lemma xor_fold_key_b: "xor_fold key_b = 3"
  by code_simp

lemma client_b_key: "length (encryptionKey client_b) = 32"
  by (simp add: client_b_def new_client_def key_b_def)

lemma scenario_sealed:
  "protectMetadata demo_platform client_a iv_a scenario_bundle Light = Inr protected_a \<and>
   sealed_text protected_a = Some sealed_a \<and>
   decrypt demo_platform (base64_decode demo_platform sealed_a) (encryptionKey client_b)
     = Inl AuthenticationError"
proof -
  have ne: "filter (\<lambda>a. trait_type a \<in> set (getSensitiveAttributes Light)) (attributes scenario_bundle) \<noteq> []"
    by (simp add: scenario_bundle_def)
  from protectMetadata_sealed [OF demo_aes_correct demo_base64_correct client_a_key length_iv_a ne]
  obtain enc pm where
    e: "encrypt demo_platform (json_stringify demo_platform
          (filter (\<lambda>a. trait_type a \<in> set (getSensitiveAttributes Light)) (attributes scenario_bundle)))
          (encryptionKey client_a) iv_a = Inr enc"
    and p: "protectMetadata demo_platform client_a iv_a scenario_bundle Light = Inr pm"
    and s: "sealed_text pm = Some (base64_encode demo_platform enc)"
    and b: "base64_decode demo_platform (base64_encode demo_platform enc) = enc"
    by blast
  have pa: "protected_a = pm" by (simp add: protected_a_def p)
  have sa: "sealed_a = base64_encode demo_platform enc" by (simp add: sealed_a_def pa s)
  have kk: "xor_fold (encryptionKey client_b) \<noteq> xor_fold (encryptionKey client_a)"
    by (simp add: client_a_def client_b_def new_client_def xor_fold_key_a xor_fold_key_b)
  have "decrypt demo_platform enc (encryptionKey client_b) = Inl AuthenticationError"
    by (rule demo_wrong_key [OF e length_iv_a client_b_key kk])
  then show ?thesis by (simp add: pa sa p s b)
qed

lemma record_a_sealed: "encrypt demo_platform [1, 2, 3] key_a iv_a = Inr record_a"
  by code_simp


lemma record_a_bits: "257 < 8 * length record_a"
  by code_simp

lemma length_key_a: "length key_a = 32"
  by (simp add: key_a_def)

section \<open>Metadata protection: the claims\<close>

text \<open>
  C1. For every attribute bundle \<open>B\<close> (metadata that carries no sealed record yet),
  every level \<open>L\<close> and every 32-byte key, \<open>protectMetadata\<close> succeeds and
  \<open>decryptMetadata\<close> under the same key returns the public attributes in their original
  order followed by the private ones; as a set these are the attributes of \<open>B\<close>. The
  runtime primitives are assumed to meet their contracts.
\<close>

theorem protect_reveal_roundtrip:
  assumes "aes_correct P" "json_correct P" "base64_correct P"
    and "length (encryptionKey c) = 32" "length iv = 16"
    and "sealed_text B = None"
  shows "\<exists>pm full.
           protectMetadata P c iv B L = Inr pm \<and>
           decryptMetadata P c pm = Inr full \<and>
           attributes full =
             filter (\<lambda>a. trait_type a \<notin> set (getSensitiveAttributes L)) (attributes B) @
             filter (\<lambda>a. trait_type a \<in> set (getSensitiveAttributes L)) (attributes B) \<and>
           set (attributes full) = set (attributes B)"
proof -
  let ?S = "set (getSensitiveAttributes L)"
  let ?priv = "filter (\<lambda>a. trait_type a \<in> ?S) (attributes B)"
  let ?pub = "filter (\<lambda>a. trait_type a \<notin> ?S) (attributes B)"
  show ?thesis
  proof (cases "?priv = []")
    case True
    have p: "protectMetadata P c iv B L = Inr (B\<lparr>attributes := ?pub\<rparr>)"
      using True by (simp add: protectMetadata_def split_attributes_filter)
    have d: "decryptMetadata P c (B\<lparr>attributes := ?pub\<rparr>) = Inr (B\<lparr>attributes := ?pub\<rparr>)"
      using assms(6) by (simp add: decryptMetadata_def sealed_text_def)
    have "attributes (B\<lparr>attributes := ?pub\<rparr>) = ?pub @ ?priv"
      using True by simp
    with p d show ?thesis
      using set_partition_attrs [of ?S "attributes B"] by metis
  next
    case False
    obtain enc where e: "encrypt P (json_stringify P ?priv) (encryptionKey c) iv = Inr enc"
      and ne: "enc \<noteq> []" and d: "decrypt P enc (encryptionKey c) = Inr (json_stringify P ?priv)"
      using decrypt_encrypt [OF assms(1) assms(4) assms(5)] by blast
    let ?pd = "\<lparr>privacyLevel = PrivacyLevel_name L,
               encryptedAttributes = Some (base64_encode P enc),
               timelineFragments = None, vrmConfig = None\<rparr>"
    let ?pm = "B\<lparr>attributes := ?pub, privateData := Some ?pd\<rparr>"
    have p: "protectMetadata P c iv B L = Inr ?pm"
      using False by (simp add: protectMetadata_def split_attributes_filter e)
    have b1: "base64_encode P enc \<noteq> []" and b2: "base64_decode P (base64_encode P enc) = enc"
      using assms(3) ne unfolding base64_correct_def by blast+
    have j: "json_parse P (json_stringify P ?priv) = Inr ?priv"
      using assms(2) unfolding json_correct_def by blast
    have st: "sealed_text ?pm = Some (base64_encode P enc)"
      using b1 by (simp add: sealed_text_def)
    have da: "decrypt_attempt P c ?pm (base64_encode P enc) = Inr (?pm\<lparr>attributes := ?pub @ ?priv\<rparr>)"
      by (simp add: decrypt_attempt_def b2 d j)
    have dm: "decryptMetadata P c ?pm = Inr (?pm\<lparr>attributes := ?pub @ ?priv\<rparr>)"
      by (simp add: decryptMetadata_def st da)
    have "attributes (?pm\<lparr>attributes := ?pub @ ?priv\<rparr>) = ?pub @ ?priv" by simp
    with p dm show ?thesis
      using set_partition_attrs [of ?S "attributes B"] by metis
  qed
qed

text \<open>The scenario bundle at level Light, on the small instance.\<close>

theorem protect_reveal_roundtrip_witness:
  "aes_correct demo_platform \<and> json_correct demo_platform \<and> base64_correct demo_platform \<and>
   length (encryptionKey client_a) = 32 \<and> length iv_a = 16 \<and> sealed_text scenario_bundle = None \<and>
   (\<exists>pm full.
      protectMetadata demo_platform client_a iv_a scenario_bundle Light = Inr pm \<and>
      decryptMetadata demo_platform client_a pm = Inr full \<and>
      attributes full =
        [\<lparr>trait_type = ''Background'', attr_value = ''Cyber Haze''\<rparr>,
         \<lparr>trait_type = ''Secret Code'', attr_value = ''GLITCH-1''\<rparr>,
         \<lparr>trait_type = ''Agent Name'', attr_value = ''Nav''\<rparr>] \<and>
      set (attributes full) = set (attributes scenario_bundle))"
proof -
  have p: "sealed_text scenario_bundle = None"
    by (simp add: sealed_text_def scenario_bundle_def)
  show ?thesis
    using protect_reveal_roundtrip [OF demo_aes_correct demo_json_correct demo_base64_correct
        client_a_key length_iv_a p, of Light]
      demo_aes_correct demo_json_correct demo_base64_correct client_a_key length_iv_a p
    by (simp add: scenario_bundle_def)
qed

text \<open>
  C3. \<open>getSensitiveAttributes\<close> returns the cumulative table: nothing at None; Secret
  Code and Agent Name at Light; Mission and Origin in addition at Medium; Accessory and
  Symbols in addition at Heavy and at Complete. Hence the set at a level contains the set
  at the level below it.
\<close>

theorem getSensitiveAttributes_table:
  "set (getSensitiveAttributes None_level) = {} \<and>
   set (getSensitiveAttributes Light) = {''Secret Code'', ''Agent Name''} \<and>
   set (getSensitiveAttributes Medium) =
     set (getSensitiveAttributes Light) \<union> {''Mission'', ''Origin''} \<and>
   set (getSensitiveAttributes Heavy) =
     set (getSensitiveAttributes Medium) \<union> {''Accessory'', ''Symbols''} \<and>
   set (getSensitiveAttributes Complete) =
     set (getSensitiveAttributes Medium) \<union> {''Accessory'', ''Symbols''} \<and>
   (\<forall>a b. PrivacyLevel_value b = PrivacyLevel_value a + 1 \<longrightarrow>
      set (getSensitiveAttributes a) \<subseteq> set (getSensitiveAttributes b))"
proof -
  have mono: "set (getSensitiveAttributes a) \<subseteq> set (getSensitiveAttributes b)"
    if "PrivacyLevel_value b = PrivacyLevel_value a + 1" for a b
    using that by (cases a; cases b) simp_all
  show ?thesis
    using mono by (simp add: insert_commute)
qed

theorem getSensitiveAttributes_table_witness:
  "PrivacyLevel_value Medium = PrivacyLevel_value Light + 1 \<and>
   set (getSensitiveAttributes Light) \<subseteq> set (getSensitiveAttributes Medium)"
  using getSensitiveAttributes_table by simp

lemma filter_public_id:
  "filter (\<lambda>a. trait_type a \<in> S) as = [] \<Longrightarrow> filter (\<lambda>a. trait_type a \<notin> S) as = as"
  by (induction as) (auto split: if_splits)

text \<open>
  C8, as the code has it. When no attribute of the bundle is sensitive at the level,
  \<open>protectMetadata\<close> returns the metadata as it came: the attributes are all public and
  keep their order, and the \<open>privateData\<close> section is not touched, so neither a sealed
  record nor a level name is attached.
\<close>

theorem protectMetadata_no_private:
  assumes "fst (split_attributes (getSensitiveAttributes L) (attributes m) [] []) = []"
  shows "protectMetadata P c iv m L = Inr m"
  using assms by (simp add: protectMetadata_def split_attributes_filter filter_public_id)

theorem protectMetadata_no_private_witness:
  "fst (split_attributes (getSensitiveAttributes Light) (attributes public_bundle) [] []) = [] \<and>
   protectMetadata demo_platform client_a iv_a public_bundle Light = Inr public_bundle"
proof -
  have h: "fst (split_attributes (getSensitiveAttributes Light) (attributes public_bundle) [] []) = []"
    by (simp add: public_bundle_def scenario_bundle_def)
  show ?thesis using h protectMetadata_no_private [OF h] by simp
qed

text \<open>
  C8 as stated asks for the level marker on the result. A bundle with one public
  attribute and no \<open>privateData\<close> section, protected at Light, comes back without the
  section.
\<close>

theorem protectMetadata_no_marker_counterexample:
  "fst (split_attributes (getSensitiveAttributes Light) (attributes public_bundle) [] []) = [] \<and>
   protectMetadata demo_platform client_a iv_a public_bundle Light = Inr public_bundle \<and>
   privateData public_bundle = None"
  by (simp add: protectMetadata_def public_bundle_def scenario_bundle_def)

lemma decryptMetadata_total: "\<exists>m. decryptMetadata P c pm = Inr m"
  by (simp add: decryptMetadata_def split: option.split sum.split)

text \<open>
  C2, as the code has it. When the bundle carries a sealed text and \<open>decrypt\<close> throws on
  it, the \<open>catch\<close> block of \<open>decryptMetadata\<close> returns the protected bundle unchanged as an
  ordinary result; the caller sees no error.
\<close>

theorem decryptMetadata_swallows_failure:
  assumes "sealed_text pm = Some s"
    and "decrypt P (base64_decode P s) (encryptionKey c) = Inl e"
  shows "decryptMetadata P c pm = Inr pm"
  using assms by (simp add: decryptMetadata_def decrypt_attempt_def)

theorem decryptMetadata_swallows_failure_witness:
  "sealed_text protected_a = Some sealed_a \<and>
   decrypt demo_platform (base64_decode demo_platform sealed_a) (encryptionKey client_b)
     = Inl AuthenticationError \<and>
   decryptMetadata demo_platform client_b protected_a = Inr protected_a"
proof -
  have s: "sealed_text protected_a = Some sealed_a"
    using scenario_sealed by simp
  have d: "decrypt demo_platform (base64_decode demo_platform sealed_a) (encryptionKey client_b)
             = Inl AuthenticationError"
    using scenario_sealed by simp
  show ?thesis using s d decryptMetadata_swallows_failure [OF s d] by simp
qed

text \<open>
  C2 as stated asks for an AuthenticationError at the caller. The scenario bundle sealed
  under one key and revealed under another: \<open>decrypt\<close> fails with AuthenticationError
  and \<open>decryptMetadata\<close> returns the still protected bundle.
\<close>

theorem decryptMetadata_wrong_key_counterexample:
  "protectMetadata demo_platform client_a iv_a scenario_bundle Light = Inr protected_a \<and>
   sealed_text protected_a = Some sealed_a \<and>
   decrypt demo_platform (base64_decode demo_platform sealed_a) (encryptionKey client_b)
     = Inl AuthenticationError \<and>
   decryptMetadata demo_platform client_b protected_a = Inr protected_a"
  using scenario_sealed by (simp add: decryptMetadata_def decrypt_attempt_def)

section \<open>Encryption: the claims\<close>

text \<open>
  Neither layout carries a cipher identifier: \<open>encryptChaCha20\<close> returns nonce, tag and
  ciphertext, or, when the ChaCha20-Poly1305 cipher throws, whatever \<open>encrypt\<close> returns.
\<close>

lemma encryptChaCha20_layout:
  assumes "length key = 32"
  shows "chacha_seal P key nonce data = Inr (ct, tag) \<Longrightarrow>
           encryptChaCha20 P data key nonce iv = Inr (nonce @ tag @ ct)"
    and "chacha_seal P key nonce data = Inl e \<Longrightarrow>
           encryptChaCha20 P data key nonce iv = encrypt P data key iv"
  using assms by (simp_all add: encryptChaCha20_def)





text \<open>
  C7. A record produced by \<open>encrypt\<close> in which any single bit (of the IV, the tag or
  the ciphertext) has been inverted is refused by \<open>decrypt\<close> with AuthenticationError, and
  nothing is returned. The cipher is assumed correct and tamper evident.
\<close>

theorem decrypt_rejects_inverted_bit:
  assumes "aes_correct P" "aes_tamper_evident P"
    and "length key = 32" "length iv = 16"
    and "encrypt P data key iv = Inr enc"
    and "n < 8 * length enc"
  shows "decrypt P (invert_bit enc n) key = Inl AuthenticationError"
proof -
  from assms(1,3,4) obtain ct tag where
    s: "aes_seal P key iv data = Inr (ct, tag)" and t: "length tag = 16"
    unfolding aes_correct_def by blast
  from assms(5) have enc: "enc = iv @ tag @ ct"
    by (simp add: encrypt_def s)
  from assms(2) s have
    r1: "m < 8 * length iv \<Longrightarrow> aes_open P key (invert_bit iv m) tag ct = Inl AuthenticationError" and
    r2: "m < 8 * length tag \<Longrightarrow> aes_open P key iv (invert_bit tag m) ct = Inl AuthenticationError" and
    r3: "m < 8 * length ct \<Longrightarrow> aes_open P key iv tag (invert_bit ct m) = Inl AuthenticationError"
    for m
    unfolding aes_tamper_evident_def by blast+
  consider (iv) "n < 128" | (tag) "128 \<le> n" "n < 256" | (ct) "256 \<le> n" by linarith
  then show ?thesis
  proof cases
    case iv
    then have "invert_bit enc n = invert_bit iv n @ tag @ ct"
      using assms(4) by (simp add: enc invert_bit_append)
    then show ?thesis
      using r1 [of n] iv assms(4) t by (simp add: decrypt_def length_invert_bit)
  next
    case tag
    then have "n - 128 < 128" by simp
    then have "invert_bit enc n = iv @ invert_bit tag (n - 128) @ ct"
      using tag assms(4) t by (simp add: enc invert_bit_append)
    then show ?thesis
      using r2 [of "n - 128"] tag assms(4) t by (simp add: decrypt_def length_invert_bit)
  next
    case ct
    then have "\<not> n - 128 < 128" and "n - 128 - 128 = n - 256" by simp_all
    then have "invert_bit enc n = iv @ tag @ invert_bit ct (n - 256)"
      using ct assms(4) t by (simp add: enc invert_bit_append)
    moreover have "n - 256 < 8 * length ct"
      using assms(6) ct assms(4) t by (simp add: enc)
    ultimately show ?thesis
      using r3 [of "n - 256"] assms(4) t by (simp add: decrypt_def)
  qed
qed

theorem decrypt_rejects_inverted_bit_witness:
  "aes_correct demo_platform \<and> aes_tamper_evident demo_platform \<and>
   length key_a = 32 \<and> length iv_a = 16 \<and>
   encrypt demo_platform [1, 2, 3] key_a iv_a = Inr record_a \<and>
   257 < 8 * length record_a \<and>
   decrypt demo_platform (invert_bit record_a 257) key_a = Inl AuthenticationError"
  using decrypt_rejects_inverted_bit
      [OF demo_aes_correct demo_tamper_evident length_key_a length_iv_a record_a_sealed
        record_a_bits]
    demo_aes_correct demo_tamper_evident length_key_a length_iv_a record_a_sealed record_a_bits
  by simp

section \<open>Numbers: rounding and arithmetic\<close>

lemma round_half_even_of_int: "round_half_even (of_int n) = n"
  by (simp add: round_half_even_def)

lemma round64_zero: "round64 0 = Fin 0"
  unfolding round64_def by (simp only: simp_thms if_True)

lemma floor_log2:
  assumes "2 powi k \<le> r" and "r < 2 powi (k + 1)"
  shows "\<lfloor>log 2 r\<rfloor> = k"
proof -
  have p: "(0::real) < 2 powi k" by simp
  have pos: "0 < r" using p assms(1) by linarith
  have a: "(2::real) powr real_of_int k = 2 powi k"
    by (rule powr_real_of_int') simp_all
  have b: "(2::real) powr real_of_int (k + 1) = 2 powi (k + 1)"
    by (rule powr_real_of_int') simp_all
  show ?thesis
    using floor_log_eq_powr_iff [of r 2 k] pos assms a b by simp
qed

text \<open>
  The value of \<open>round64\<close> in the normal range, from the binade \<open>k\<close> of the argument and
  the rounded quotient by the unit in the last place.
\<close>

lemma round64_eval:
  assumes lo: "2 powi k \<le> \<bar>r\<bar>" and hi: "\<bar>r\<bar> < 2 powi (k + 1)" and k: "- 1022 \<le> k"
    and n: "round_half_even (r / 2 powi (k - 52)) = n"
    and b: "\<bar>of_int n * 2 powi (k - 52)\<bar> < (2::real) powi 1024"
  shows "round64 r = Fin (of_int n * 2 powi (k - 52))"
proof -
  have p: "(0::real) < 2 powi k" by simp
  have nz: "r \<noteq> 0" using p lo by linarith
  have fl: "\<lfloor>log 2 \<bar>r\<bar>\<rfloor> = k" using lo hi by (rule floor_log2)
  have mx: "max k (- 1022) = k" using k by simp
  have b': "\<not> (2::real) powi 1024 \<le> \<bar>of_int n * 2 powi (k - 52)\<bar>" using b by simp
  show ?thesis
    unfolding round64_def Let_def fl mx n
    using nz b' by (simp only: if_False)
qed

text \<open>A real with at most 53 significant bits in the normal range is a double.\<close>

lemma round64_exact:
  assumes lo: "2 powi k \<le> \<bar>r\<bar>" and hi: "\<bar>r\<bar> < 2 powi (k + 1)" and k: "- 1022 \<le> k" "k \<le> 1023"
    and n: "r = of_int n * 2 powi (k - 52)"
  shows "round64 r = Fin r"
proof -
  have "r / 2 powi (k - 52) = of_int n" by (simp add: n)
  then have rn: "round_half_even (r / 2 powi (k - 52)) = n"
    by (simp only: round_half_even_of_int)
  have "(2::real) powi (k + 1) \<le> 2 powi 1024"
    by (rule power_int_increasing) (use k in simp_all)
  then have b: "\<bar>of_int n * 2 powi (k - 52)\<bar> < (2::real) powi 1024"
    using hi n by simp
  show ?thesis using round64_eval [OF lo hi k(1) rn b] n by simp
qed

lemma round64_values:
  "round64 1 = Fin 1" "round64 2 = Fin 2" "round64 (1/2) = Fin (1/2)"
  "round64 (- 1) = Fin (- 1)" "round64 (- (1/2)) = Fin (- (1/2))"
  "round64 (1/4) = Fin (1/4)" "round64 (3/4) = Fin (3/4)"
proof -
  show "round64 1 = Fin 1"
    by (rule round64_exact [of 0 _ "2 ^ 52"]) (simp_all add: power_int_minus)
  show "round64 2 = Fin 2"
    by (rule round64_exact [of 1 _ "2 ^ 52"]) (simp_all add: power_int_minus)
  show "round64 (1/2) = Fin (1/2)"
    by (rule round64_exact [of "- 1" _ "2 ^ 52"]) (simp_all add: power_int_minus)
  show "round64 (- 1) = Fin (- 1)"
    by (rule round64_exact [of 0 _ "- (2 ^ 52)"]) (simp_all add: power_int_minus)
  show "round64 (- (1/2)) = Fin (- (1/2))"
    by (rule round64_exact [of "- 1" _ "- (2 ^ 52)"]) (simp_all add: power_int_minus)
  show "round64 (1/4) = Fin (1/4)"
    by (rule round64_exact [of "- 2" _ "2 ^ 52"]) (simp_all add: power_int_minus)
  show "round64 (3/4) = Fin (3/4)"
    by (rule round64_exact [of "- 1" _ "3 * 2 ^ 51"]) (simp_all add: power_int_minus)
qed

text \<open>
  Doubles from \<open>2 powi 53\<close> to \<open>2 powi 54\<close> are the even integers: a quarter added to
  \<open>10 ^ 16\<close> is lost.
\<close>

lemma round64_absorbs: "round64 (10 ^ 16 + 1 / 4) = Fin (10 ^ 16)"
proof -
  have n: "round_half_even ((10 ^ 16 + 1 / 4) / 2 powi (53 - 52)) = 5 * 10 ^ 15"
  proof -
    have q: "((10::real) ^ 16 + 1 / 4) / 2 powi (53 - 52) = 5 * 10 ^ 15 + 1 / 8" by simp
    have f: "\<lfloor>5 * 10 ^ 15 + 1 / 8 :: real\<rfloor> = 5 * 10 ^ 15"
      by (rule floor_unique) simp_all
    show ?thesis unfolding q round_half_even_def Let_def f by simp
  qed
  have "round64 (10 ^ 16 + 1 / 4) = Fin (of_int (5 * 10 ^ 15) * 2 powi (53 - 52))"
    by (rule round64_eval [OF _ _ _ n]) simp_all
  then show ?thesis by simp
qed

text \<open>The doubles that the literals 0.1 and 0.7 denote.\<close>

lemma round64_tenth: "round64 (1/10) = Fin (7205759403792794 / 2 ^ 56)"
proof -
  have n: "round_half_even ((1/10) / 2 powi (- 4 - 52)) = 7205759403792794"
  proof -
    have q: "((1::real)/10) / 2 powi (- 4 - 52) = 7205759403792794 - 2 / 5"
      by (simp add: power_int_minus)
    have f: "\<lfloor>7205759403792794 - 2 / 5 :: real\<rfloor> = 7205759403792793"
      by (rule floor_unique) simp_all
    show ?thesis unfolding q round_half_even_def Let_def f by simp
  qed
  have "round64 (1/10) = Fin (of_int 7205759403792794 * 2 powi (- 4 - 52))"
    by (rule round64_eval [OF _ _ _ n]) (simp_all add: power_int_minus)
  then show ?thesis by (simp add: power_int_minus)
qed

lemma round64_seven_tenths: "round64 (7/10) = Fin (6305039478318694 / 2 ^ 53)"
proof -
  have n: "round_half_even ((7/10) / 2 powi (- 1 - 52)) = 6305039478318694"
  proof -
    have q: "((7::real)/10) / 2 powi (- 1 - 52) = 6305039478318694 + 2 / 5"
      by (simp add: power_int_minus)
    have f: "\<lfloor>6305039478318694 + 2 / 5 :: real\<rfloor> = 6305039478318694"
      by (rule floor_unique) simp_all
    show ?thesis unfolding q round_half_even_def Let_def f by simp
  qed
  have "round64 (7/10) = Fin (of_int 6305039478318694 * 2 powi (- 1 - 52))"
    by (rule round64_eval [OF _ _ _ n]) (simp_all add: power_int_minus)
  then show ?thesis by (simp add: power_int_minus)
qed

text \<open>
  The steps of \<open>0.1 + (0.7 - 0.5) * 2 * 0.5\<close>: the difference and the products are exact,
  the sum lies half way between two doubles and goes to the one with the even significand.
\<close>

lemma round64_fifth_below: "round64 (6305039478318694 / 2 ^ 53 - 1 / 2) = Fin (1801439850948198 / 2 ^ 53)"
proof -
  have "round64 (1801439850948198 / 2 ^ 53) = Fin (1801439850948198 / 2 ^ 53)"
    by (rule round64_exact [of "- 3" _ "7205759403792792"]) (simp_all add: power_int_minus)
  then show ?thesis by simp
qed

lemma round64_two_fifths_below: "round64 (1801439850948198 / 2 ^ 53 * 2) = Fin (1801439850948198 / 2 ^ 52)"
proof -
  have "round64 (1801439850948198 / 2 ^ 52) = Fin (1801439850948198 / 2 ^ 52)"
    by (rule round64_exact [of "- 2" _ "7205759403792792"]) (simp_all add: power_int_minus)
  then show ?thesis by simp
qed

lemma round64_tie: "round64 (7205759403792794 / 2 ^ 56 + 1801439850948198 / 2 ^ 53) = Fin (5404319552844594 / 2 ^ 54)"
proof -
  let ?r = "7205759403792794 / 2 ^ 56 + 1801439850948198 / 2 ^ 53 :: real"
  have n: "round_half_even (?r / 2 powi (- 2 - 52)) = 5404319552844594"
  proof -
    have q: "?r / 2 powi (- 2 - 52) = 5404319552844594 + 1 / 2"
      by (simp add: power_int_minus)
    have f: "\<lfloor>5404319552844594 + 1 / 2 :: real\<rfloor> = 5404319552844594"
      by (rule floor_unique) simp_all
    show ?thesis unfolding q round_half_even_def Let_def f by simp
  qed
  have "round64 ?r = Fin (of_int 5404319552844594 * 2 powi (- 2 - 52))"
    by (rule round64_eval [OF _ _ _ n]) (simp_all add: power_int_minus)
  then show ?thesis by (simp add: power_int_minus)
qed

subsection \<open>Arithmetic and noise terms\<close>

lemma lit_values:
  "lit 0 = Fin 0" "lit 1 = Fin 1" "lit 2 = Fin 2" "lit (1/2) = Fin (1/2)"
  by (simp_all add: lit_def round64_zero round64_values)

lemma jsub_Fin: "jsub (Fin a) (Fin b) = round64 (a - b)"
  by (simp add: jsub_def)

lemma jadd_NaN [simp]: "jadd a NaN = NaN" "jadd NaN a = NaN"
  by (cases a; simp)+

lemma jsub_NaN [simp]: "jsub a NaN = NaN" "jsub NaN a = NaN"
  by (simp_all add: jsub_def)

lemma jmul_NaN [simp]: "jmul a NaN = NaN" "jmul NaN a = NaN"
  by (cases a; simp)+

lemma jdiv_NaN [simp]: "jdiv a NaN = NaN" "jdiv NaN a = NaN"
  by (cases a; simp)+

text \<open>The noise term for the draw 0 at intensity 0.5, and for the draw 0.5.\<close>

lemma noise_zero_draw: "noise 0 (lit (1/2)) = Fin (- (1/2))"
  by (simp add: noise_def jsub_Fin lit_values round64_zero round64_values)

lemma noise_half_draw: "noise (1/2) amount = jmul (Fin 0) amount"
  by (simp add: noise_def jsub_Fin lit_values round64_zero round64_values)

text \<open>
  The sums in \<open>addPositionNoise\<close> are rounded. On \<open>{x: 1e16, y: 0.1, z: 0}\<close> with the
  draws 0.75, 0.7 and 0.7 the noise terms are 0.25 and twice 0.19999999999999996: \<open>x\<close>
  stays at \<open>1e16\<close> and \<open>y\<close> becomes 0.29999999999999993.
\<close>

lemma addPositionNoise_rounds: "addPositionNoise far_draws 0 far_position (lit 0.5) = (far_moved, 3)"
proof -
  have d: "far_draws 0 = 3 / 4" "far_draws (0 + 1) = 7 / 10" "far_draws (0 + 2) = 7 / 10"
    by (simp_all add: far_draws_def)
  have l: "lit 0.5 = Fin (1 / 2)" "lit 2 = Fin 2" "lit 0.1 = Fin (7205759403792794 / 2 ^ 56)"
    using lit_values round64_tenth by (simp_all add: lit_def)
  have nx: "noise (3 / 4) (Fin (1 / 2)) = Fin (1 / 4)"
    by (simp add: noise_def jsub_Fin lit_values round64_values)
  have s1: "jsub (round64 (7 / 10)) (Fin (1 / 2)) = Fin (1801439850948198 / 2 ^ 53)"
    by (simp only: round64_seven_tenths jsub_Fin round64_fifth_below)
  have s2: "jmul (Fin (1801439850948198 / 2 ^ 53)) (Fin 2) = Fin (1801439850948198 / 2 ^ 52)"
    by (simp only: jmul.simps round64_two_fifths_below)
  have s3: "jmul (Fin (1801439850948198 / 2 ^ 52)) (Fin (1 / 2)) = Fin (1801439850948198 / 2 ^ 53)"
    using round64_fifth_below by simp
  have ny: "noise (7 / 10) (Fin (1 / 2)) = Fin (1801439850948198 / 2 ^ 53)"
    unfolding noise_def l s1 s2 s3 by (rule refl)
  have ax: "jadd (Fin (10 ^ 16)) (Fin (1 / 4)) = Fin (10 ^ 16)"
    by (simp only: jadd.simps round64_absorbs)
  have ay: "jadd (Fin (7205759403792794 / 2 ^ 56)) (Fin (1801439850948198 / 2 ^ 53))
      = Fin (5404319552844594 / 2 ^ 54)"
    by (simp only: jadd.simps round64_tie)
  have az: "jadd (Fin 0) (Fin (1801439850948198 / 2 ^ 53)) = Fin (1801439850948198 / 2 ^ 53)"
    using round64_fifth_below by simp
  show ?thesis
    unfolding addPositionNoise_def d l far_position_def far_moved_def
    by (simp only: PositionData.simps nx ny ax ay az) simp
qed

section \<open>Behavioural masking: the claims\<close>

lemma new_client_no_model: "vrmModel (new_client k r) = None"
  by (simp add: new_client_def)

lemma loadVrmModel_failed: "vrmModel (loadVrmModel c None) = vrmModel c"
  by (simp add: loadVrmModel_def)

lemma client_loaded_model: "vrmModel client_loaded = Some (VRM ''avatar.vrm'')"
  by (simp add: client_loaded_def loadVrmModel_def)

lemma frequency_loop_index: "snd (frequency_loop rnd i fs a) = i + length fs"
  by (induction fs arbitrary: i) (simp_all add: split_beta)

lemma amplitude_loop_index: "snd (amplitude_loop rnd i as a) = i + length as"
  by (induction as arbitrary: i) (simp_all add: split_beta)

lemma addVoiceNoise_index:
  "snd (addVoiceNoise rnd i v a) = i + length (frequency v) + length (amplitude v) + 2"
  by (simp add: addVoiceNoise_def split_beta frequency_loop_index amplitude_loop_index)

lemma addPositionNoise_index: "snd (addPositionNoise rnd i p a) = i + 3"
  by (simp add: addPositionNoise_def)

lemma addRotationNoise_index: "snd (addRotationNoise M rnd i r a) = i + 4"
  unfolding addRotationNoise_def by (simp only: Let_def snd_conv)

lemma addGestureNoise_index: "snd (addGestureNoise rnd i g a) = i + 2"
  by (simp add: addGestureNoise_def)

lemma gestures_loop_map:
  "gestures_loop rnd i gs =
     (map (\<lambda>(k, g). fst (addGestureNoise rnd (i + 2 * k) g (lit 0.4))) (enumerate 0 gs),
      i + 2 * length gs)"
proof (induction gs arbitrary: i)
  case Nil
  then show ?case by simp
next
  case (Cons g gs)
  show ?case
    by (simp add: split_beta addGestureNoise_index Cons.IH enumerate_Suc_eq comp_def)
qed

lemma voice_draws_clone: "voice_draws (json_clone f) = voice_draws f"
  by (simp add: voice_draws_def json_clone_def split: option.split)

text \<open>The result of the masking path, for every library \<open>M\<close>.\<close>

lemma mask_clone_fields:
  "mask_clone M rnd i f =
     (f\<lparr>position := fst (addPositionNoise rnd i (position f) (lit 0.5)),
        rotation := fst (addRotationNoise M rnd (i + 3) (rotation f) (lit 0.3)),
        voice := map_option (\<lambda>v. fst (addVoiceNoise rnd (i + 7) v (lit 0.7))) (voice f),
        gestures := map (\<lambda>(k, g). fst (addGestureNoise rnd (i + 7 + voice_draws f + 2 * k) g (lit 0.4)))
                      (enumerate 0 (gestures f))\<rparr>,
      i + 7 + voice_draws f + 2 * length (gestures f))"
  unfolding mask_clone_def
  by (cases "voice f")
     (simp_all add: split_beta addPositionNoise_index addRotationNoise_index gestures_loop_map
        addVoiceNoise_index voice_draws_def add.assoc)

lemma frame_a_clone: "json_clone frame_a = frame_a"
  by (simp add: json_clone_def frame_a_def round64_zero round64_values)

text \<open>The position noise on the origin when every draw is 0, and when every draw is 0.5.\<close>

lemma addPositionNoise_zero_draws:
  "fst (addPositionNoise zero_draws 0 (position frame_a) (lit (1/2))) = moved_position"
  by (simp add: addPositionNoise_def zero_draws_def noise_zero_draw frame_a_def
      moved_position_def round64_values)

lemma addPositionNoise_half_draws:
  "fst (addPositionNoise half_draws 0 (position frame_a) (lit (1/2))) = position frame_a"
  by (simp add: addPositionNoise_def half_draws_def noise_half_draw frame_a_def lit_values
      round64_zero)

text \<open>
  The rotation noise when the three axis draws are 0.5: the axis is (0, 0, 0), its
  magnitude is 0, each normalised component is 0 / 0, and the NaN reaches every component
  of the result, whatever the rotation, the intensity, the angle draw and the library.
\<close>

lemma addRotationNoise_zero_axis:
  assumes "rnd (i + 1) = 1/2" and "rnd (i + 2) = 1/2" and "rnd (i + 3) = 1/2"
  shows "fst (addRotationNoise M rnd i r amount) = r\<lparr>x := NaN, y := NaN, z := NaN, w := NaN\<rparr>"
proof -
  have axis: "jsub (jmul (round64 (1/2)) (lit 2)) (lit 1) = Fin 0"
    by (simp add: jsub_Fin lit_values round64_zero round64_values)
  have mag: "jsqrt M (jadd (jadd (jsquare M (Fin 0)) (jsquare M (Fin 0))) (jsquare M (Fin 0)))
      = Fin 0"
    by (simp add: round64_zero)
  have n: "jdiv (Fin 0) (Fin 0) = NaN" by simp
  show ?thesis
    unfolding addRotationNoise_def Let_def assms axis mag n
    by (simp only: jmul_NaN jadd_NaN jsub_NaN jdiv_NaN jsquare.simps jsqrt.simps fst_conv)
qed

text \<open>
  C10. While no VRM model is loaded, \<open>applyVrmPrivacyMask\<close> returns the reference it
  was given, for every viewer: the same object, the heap untouched, no draw taken. That is
  the state of a new client, and a load that fails leaves it so.
\<close>

theorem applyVrmPrivacyMask_without_model:
  assumes "vrmModel c = None"
  shows "applyVrmPrivacyMask M c rnd i h vrmData viewerId nftMint = Some (vrmData, h, i) \<and>
         applyVrmPrivacyMask M (loadVrmModel c None) rnd i h vrmData viewerId nftMint
           = Some (vrmData, h, i) \<and>
         applyVrmPrivacyMask M (new_client k r) rnd i h vrmData viewerId nftMint
           = Some (vrmData, h, i)"
  using assms by (simp add: applyVrmPrivacyMask_def new_client_no_model loadVrmModel_failed)

theorem applyVrmPrivacyMask_without_model_witness:
  "vrmModel client_a = None \<and>
   applyVrmPrivacyMask rounded_math client_a zero_draws 0 [frame_a] 0 None None
     = Some (0, [frame_a], 0)"
proof -
  have h: "vrmModel client_a = None" by (simp add: client_a_def new_client_def)
  show ?thesis using h applyVrmPrivacyMask_without_model [OF h] by simp
qed

text \<open>
  C4, as the code has it. For a trusted viewer \<open>applyVrmPrivacyMask\<close> returns the
  reference it was given: the result is the input object itself, equal to it in every
  field, and not a copy. The function has no tier among its arguments.
\<close>

theorem applyVrmPrivacyMask_trusted:
  assumes "isTrusted viewerId nftMint"
  shows "applyVrmPrivacyMask M c rnd i h vrmData viewerId nftMint = Some (vrmData, h, i)"
  using assms by (simp add: applyVrmPrivacyMask_def)

theorem applyVrmPrivacyMask_trusted_witness:
  "isTrusted (Some ''agent2.glitch.gang'') None \<and>
   applyVrmPrivacyMask rounded_math client_loaded zero_draws 0 [frame_a] 0
       (Some ''agent2.glitch.gang'') None
     = Some (0, [frame_a], 0)"
proof -
  have t: "isTrusted (Some ''agent2.glitch.gang'') None"
    by (simp add: isTrusted_def isViewerTrusted_def)
  show ?thesis using t applyVrmPrivacyMask_trusted [OF t] by simp
qed

text \<open>
  C4 as stated asks for a fresh object. With a model loaded and the trusted viewer
  \<open>agent1.glitch.gang\<close>, the reference returned for the frame at reference 0 is 0 and
  nothing is allocated.
\<close>

theorem applyVrmPrivacyMask_trusted_alias_counterexample:
  "vrmModel client_loaded = Some (VRM ''avatar.vrm'') \<and>
   isTrusted (Some ''agent1.glitch.gang'') None \<and>
   applyVrmPrivacyMask rounded_math client_loaded zero_draws 0 [frame_a] 0
       (Some ''agent1.glitch.gang'') None
     = Some (0, [frame_a], 0)"
  by (simp add: applyVrmPrivacyMask_def client_loaded_model isTrusted_def isViewerTrusted_def)

text \<open>
  C5, as the code has it. For an untrusted viewer of a client with a model,
  \<open>applyVrmPrivacyMask\<close> allocates a new frame: the JSON clone of the input with position
  noise of intensity 0.5, rotation noise of intensity 0.3, voice noise of intensity 0.7
  and gesture noise of intensity 0.4, each on its own draws, in this order. No tier
  enters. Each position axis of the clone has the term \<open>(Math.random() - 0.5) * 2 * 0.5\<close>
  of its draw added, every operation rounded.
\<close>

theorem applyVrmPrivacyMask_untrusted:
  assumes "vrmModel c \<noteq> None" and "\<not> isTrusted viewerId nftMint" and "vrmData < length h"
  shows "\<exists>m. applyVrmPrivacyMask M c rnd i h vrmData viewerId nftMint
               = Some (length h, h @ [m],
                       i + 7 + voice_draws (h ! vrmData) + 2 * length (gestures (h ! vrmData))) \<and>
             position m = fst (addPositionNoise rnd i (position (json_clone (h ! vrmData))) (lit 0.5)) \<and>
             rotation m = fst (addRotationNoise M rnd (i + 3) (rotation (json_clone (h ! vrmData))) (lit 0.3)) \<and>
             voice m = map_option (\<lambda>v. fst (addVoiceNoise rnd (i + 7) v (lit 0.7)))
                         (voice (json_clone (h ! vrmData))) \<and>
             gestures m =
               map (\<lambda>(k, g). fst (addGestureNoise rnd (i + 7 + voice_draws (h ! vrmData) + 2 * k) g (lit 0.4)))
                 (enumerate 0 (gestures (json_clone (h ! vrmData)))) \<and>
             x (position m) = jadd (json_number (x (position (h ! vrmData))))
               (jmul (jmul (jsub (round64 (rnd i)) (lit 0.5)) (lit 2)) (lit 0.5)) \<and>
             y (position m) = jadd (json_number (y (position (h ! vrmData))))
               (jmul (jmul (jsub (round64 (rnd (i + 1))) (lit 0.5)) (lit 2)) (lit 0.5)) \<and>
             z (position m) = jadd (json_number (z (position (h ! vrmData))))
               (jmul (jmul (jsub (round64 (rnd (i + 2))) (lit 0.5)) (lit 2)) (lit 0.5))"
proof -
  let ?f = "json_clone (h ! vrmData)"
  let ?m = "fst (mask_clone M rnd i ?f)"
  have g: "length (gestures ?f) = length (gestures (h ! vrmData))"
    by (simp add: json_clone_def)
  have ap: "applyVrmPrivacyMask M c rnd i h vrmData viewerId nftMint
               = Some (length h, h @ [?m],
                       i + 7 + voice_draws (h ! vrmData) + 2 * length (gestures (h ! vrmData)))"
    using assms by (simp add: applyVrmPrivacyMask_def mask_clone_fields voice_draws_clone g)
  have fields: "position ?m = fst (addPositionNoise rnd i (position ?f) (lit 0.5))"
    "rotation ?m = fst (addRotationNoise M rnd (i + 3) (rotation ?f) (lit 0.3))"
    "voice ?m = map_option (\<lambda>v. fst (addVoiceNoise rnd (i + 7) v (lit 0.7))) (voice ?f)"
    "gestures ?m = map (\<lambda>(k, g). fst (addGestureNoise rnd (i + 7 + voice_draws (h ! vrmData) + 2 * k) g (lit 0.4)))
                 (enumerate 0 (gestures ?f))"
    by (simp_all add: mask_clone_fields voice_draws_clone)
  have axes: "x (position ?m) = jadd (json_number (x (position (h ! vrmData))))
               (jmul (jmul (jsub (round64 (rnd i)) (lit 0.5)) (lit 2)) (lit 0.5))"
    "y (position ?m) = jadd (json_number (y (position (h ! vrmData))))
               (jmul (jmul (jsub (round64 (rnd (i + 1))) (lit 0.5)) (lit 2)) (lit 0.5))"
    "z (position ?m) = jadd (json_number (z (position (h ! vrmData))))
               (jmul (jmul (jsub (round64 (rnd (i + 2))) (lit 0.5)) (lit 2)) (lit 0.5))"
    by (simp_all add: mask_clone_fields addPositionNoise_def noise_def json_clone_def)
  show ?thesis
    using ap fields axes by blast
qed

theorem applyVrmPrivacyMask_untrusted_witness:
  "vrmModel client_loaded \<noteq> None \<and> \<not> isTrusted None None \<and> 0 < length [frame_a] \<and>
   (\<exists>m. applyVrmPrivacyMask rounded_math client_loaded zero_draws 0 [frame_a] 0 None None
            = Some (1, [frame_a, m], 7) \<and>
        position m = moved_position)"
proof -
  have a: "vrmModel client_loaded \<noteq> None" by (simp add: client_loaded_model)
  have b: "\<not> isTrusted None None" by (simp add: isTrusted_def)
  have c: "0 < length [frame_a]" by simp
  from applyVrmPrivacyMask_untrusted [OF a b c, of rounded_math zero_draws 0]
  obtain m where "applyVrmPrivacyMask rounded_math client_loaded zero_draws 0 [frame_a] 0 None None
      = Some (length [frame_a], [frame_a] @ [m],
              0 + 7 + voice_draws ([frame_a] ! 0) + 2 * length (gestures ([frame_a] ! 0)))"
    and "position m
      = fst (addPositionNoise zero_draws 0 (position (json_clone ([frame_a] ! 0))) (lit 0.5))"
    by blast
  then have "applyVrmPrivacyMask rounded_math client_loaded zero_draws 0 [frame_a] 0 None None
      = Some (1, [frame_a, m], 7) \<and> position m = moved_position"
    by (simp add: frame_a_clone addPositionNoise_zero_draws) (simp add: voice_draws_def frame_a_def)
  then show ?thesis using a b c by blast
qed

text \<open>
  C5 as stated has the output equal to the input at tier None for an untrusted viewer.
  With all draws 0, the frame at the origin comes back with each position axis at -0.5,
  whatever the tier.
\<close>

theorem applyVrmPrivacyMask_untrusted_counterexample:
  "vrmModel client_loaded \<noteq> None \<and> \<not> isTrusted None None \<and>
   map_option position
     (returned_frame (applyVrmPrivacyMask rounded_math client_loaded zero_draws 0 [frame_a] 0 None None))
     = Some moved_position \<and>
   moved_position \<noteq> position frame_a"
  by (simp add: applyVrmPrivacyMask_def client_loaded_model isTrusted_def mask_clone_fields
      returned_frame_def frame_a_clone addPositionNoise_zero_draws)
     (simp add: moved_position_def frame_a_def)

text \<open>
  C9 at the draws that give a zero axis. When the three axis draws are all 0.5 the axis
  is (0, 0, 0), its magnitude is 0 and the normalisation divides 0 by 0: the rotation of
  the masked frame is NaN in every component, for a unit input rotation, whatever the
  library computes for the sine, the cosine, the square and the square root.
\<close>

theorem applyVrmPrivacyMask_degenerate_axis:
  "applyVrmPrivacyMask M client_loaded half_draws 0 [frame_a] 0 None None
     = Some (1, [frame_a, masked_nan], 7)"
proof -
  have r: "fst (addRotationNoise M half_draws (0 + 3) (rotation frame_a) (lit 0.3))
      = (rotation frame_a)\<lparr>x := NaN, y := NaN, z := NaN, w := NaN\<rparr>"
    by (rule addRotationNoise_zero_axis) (simp_all add: half_draws_def)
  have p: "fst (addPositionNoise half_draws 0 (position frame_a) (lit 0.5)) = position frame_a"
    using addPositionNoise_half_draws by simp
  have m: "fst (mask_clone M half_draws 0 frame_a) = masked_nan"
    unfolding mask_clone_fields fst_conv r p
    by (simp add: frame_a_def masked_nan_def)
  have j: "snd (mask_clone M half_draws 0 frame_a) = 7"
    by (simp add: mask_clone_fields voice_draws_def frame_a_def)
  show ?thesis
    using m j
    by (simp add: applyVrmPrivacyMask_def client_loaded_model isTrusted_def frame_a_clone
        split_beta)
qed

end
